theory Spec2Isabelle
  imports Complex_Main
begin

section \<open>Values shared by the modules\<close>

text \<open>
  A JavaScript \<^verbatim>\<open>Error\<close> object; only its \<^verbatim>\<open>message\<close> is read by the code.
\<close>

datatype error = Error (message: string)

text \<open>
  The console: every call of \<^verbatim>\<open>console.log\<close> and \<^verbatim>\<open>console.error\<close> appends one
  entry holding the arguments of the call.
\<close>

datatype console_arg = Text string | Obj error

datatype console_entry = ConsoleLog "console_arg list" | ConsoleError "console_arg list"

section \<open>The in-memory user list of \<^verbatim>\<open>routes/user.js\<close>\<close>

record task =
  title :: string

text \<open>
  An element of the \<^verbatim>\<open>users\<close> array: \<^verbatim>\<open>{ id, name, tasks }\<close>. The name is what
  \<^verbatim>\<open>req.body.name\<close> holds, \<open>None\<close> when the body has no such field
  (\<^verbatim>\<open>undefined\<close>).
\<close>

record user =
  user_id :: int
  user_name :: "string option"
  user_tasks :: "task list"

text \<open>
  What a handler does with \<^verbatim>\<open>res\<close>: \<^verbatim>\<open>res.send\<close> (a status and a body),
  \<^verbatim>\<open>res.redirect\<close> (a status and the \<^verbatim>\<open>Location\<close> header as written) and
  \<^verbatim>\<open>res.render\<close> (status 200, the HTML that the view engine makes of the template
  and the \<^verbatim>\<open>users\<close> local).
\<close>

datatype response =
    Send nat string
  | Redirect nat string
  | View string "user list"

text \<open>
  How a handler ends: it answers, it calls \<^verbatim>\<open>next()\<close>, it calls \<^verbatim>\<open>next(err)\<close>,
  or it throws.
\<close>

datatype outcome =
    Responded response
  | Next
  | NextErr error
  | Thrown error

fun failed :: "outcome \<Rightarrow> bool" where
  "failed (NextErr e) = True"
| "failed (Thrown e) = True"
| "failed (Responded r) = False"
| "failed Next = False"

text \<open>
  The method of a request. Routes exist for GET (which also serves HEAD) and POST only;
  a request of any other method is answered by no route. (To \<^verbatim>\<open>OPTIONS\<close> Express then
  answers by itself, after the walk; that answer is no stage of the application.)
\<close>

datatype http_method = GET | HEAD | POST | OtherMethod string

fun method_text :: "http_method \<Rightarrow> string" where
  "method_text GET = ''GET''"
| "method_text HEAD = ''HEAD''"
| "method_text POST = ''POST''"
| "method_text (OtherMethod m) = m"

text \<open>
  The request: its method, \<^verbatim>\<open>req.originalUrl\<close>, the decoded \<^verbatim>\<open>req.body\<close> (an object
  of text fields, empty until a decoder fills it) and \<^verbatim>\<open>req.params\<close>.
\<close>

record request =
  req_method :: http_method
  originalUrl :: string
  body :: "string \<rightharpoonup> string"
  params :: "(string \<times> string) list"

text \<open>
  What the program reads from outside itself, one value per request: the behaviour of
  the three library stages (\<^verbatim>\<open>express.static\<close>, and \<^verbatim>\<open>express.json\<close> and
  \<^verbatim>\<open>express.urlencoded\<close>, which fail or give the body to store in \<^verbatim>\<open>req.body\<close>), the
  wall clock, the double \<^verbatim>\<open>Math.random()\<close> returns (as the rational it denotes),
  whether the view engine fails on a template, and at startup whether
  \<^verbatim>\<open>sequelize.authenticate()\<close> and \<^verbatim>\<open>sequelize.sync()\<close> are rejected (\<open>None\<close>: they
  are not).
\<close>

record env =
  static_assets :: "request \<Rightarrow> outcome"
  json_body :: "request \<Rightarrow> error + (string \<rightharpoonup> string)"
  urlencoded_body :: "request \<Rightarrow> error + (string \<rightharpoonup> string)"
  clock :: string
  random :: rat
  view_error :: "string \<Rightarrow> user list \<Rightarrow> error option"
  authenticate :: "error option"
  sync_error :: "error option"

text \<open>A table of the database: its columns and the models its foreign keys refer to.\<close>

datatype coltype = STRING

record table =
  columns :: "(string \<times> coltype) list"
  foreign_keys :: "string list"

text \<open>
  The state of the process: the \<^verbatim>\<open>users\<close> array of the router module, the console,
  and the tables of \<^verbatim>\<open>database.sqlite\<close> by model name, in creation order.
\<close>

record server =
  users :: "user list"
  console :: "console_entry list"
  tables :: "(string \<times> table) list"

definition console_log :: "console_arg list \<Rightarrow> server \<Rightarrow> server" where
  "console_log args st = st\<lparr>console := console st @ [ConsoleLog args]\<rparr>"

definition console_error :: "console_arg list \<Rightarrow> server \<Rightarrow> server" where
  "console_error args st = st\<lparr>console := console st @ [ConsoleError args]\<rparr>"

subsection \<open>The response methods of Express used by the handlers\<close>

definition res_send :: "string \<Rightarrow> outcome" where
  "res_send text = Responded (Send 200 text)"

definition res_status_send :: "nat \<Rightarrow> string \<Rightarrow> outcome" where
  "res_status_send code text = Responded (Send code text)"

definition res_redirect :: "string \<Rightarrow> outcome" where
  "res_redirect url = Responded (Redirect 302 url)"

text \<open>
  \<^verbatim>\<open>res.render\<close> hands a failure of the view engine to \<^verbatim>\<open>next\<close>.
\<close>

definition res_render :: "env \<Rightarrow> string \<Rightarrow> user list \<Rightarrow> outcome" where
  "res_render env view locals =
     (case view_error env view locals of
        Some e \<Rightarrow> NextErr e
      | None \<Rightarrow> Responded (View view locals))"

subsection \<open>Numbers\<close>

text \<open>
  A JavaScript number is a double; a finite double is read as the rational it denotes.
  The product of two doubles is the exact product rounded to the nearest double, a tie
  going to the double with an even significand.

  \<open>round_half_even\<close> is that rounding on integers. \<open>spacing n hi x\<close> is the distance
  between neighbouring doubles around \<open>x\<close>, for \<open>0 \<le> x < hi\<close> and \<open>hi\<close> a power of
  two: in the binade \<open>[hi/2, hi)\<close> it is \<open>hi / 2^53\<close>, and \<open>n\<close> counts the binades
  left above the subnormal range, where the distance stays the same. \<open>to_double\<close>
  rounds a value of \<open>[0, 16)\<close>, the range in which the product of a value of
  \<open>[0, 1)\<close> and 10 lies.
\<close>

definition round_half_even :: "rat \<Rightarrow> int" where
  "round_half_even x =
     (let f = \<lfloor>x\<rfloor>; d = x - of_int f in
      if d < 1 / 2 then f
      else if 1 / 2 < d then f + 1
      else if even f then f else f + 1)"

fun spacing :: "nat \<Rightarrow> rat \<Rightarrow> rat \<Rightarrow> rat" where
  "spacing 0 hi x = hi / 2 ^ 53"
| "spacing (Suc n) hi x = (if hi / 2 \<le> x then hi / 2 ^ 53 else spacing n (hi / 2) x)"

definition to_double :: "rat \<Rightarrow> rat" where
  "to_double x = (let s = spacing 1025 16 x in of_int (round_half_even (x / s)) * s)"

definition times_double :: "rat \<Rightarrow> rat \<Rightarrow> rat" where
  "times_double a b = to_double (a * b)"

text \<open>\<^verbatim>\<open>Math.round\<close>: the nearest integer, a tie going up.\<close>

definition Math_round :: "rat \<Rightarrow> int" where
  "Math_round x = \<lfloor>x + 1 / 2\<rfloor>"

subsection \<open>The module state and the five handlers\<close>

definition initial_users :: "user list" where
  "initial_users = [\<lparr>user_id = 1, user_name = Some ''Antonio'', user_tasks = []\<rparr>]"

definition get_users :: "env \<Rightarrow> request \<Rightarrow> server \<Rightarrow> server \<times> outcome" where
  "get_users env req st = (st, res_render env ''users.pug'' (users st))"

definition post_users :: "env \<Rightarrow> request \<Rightarrow> server \<Rightarrow> server \<times> outcome" where
  "post_users env req st =
     (let name = body req ''name'' in
      (st\<lparr>users := users st @
          [\<lparr>user_id = Math_round (times_double (random env) 10), user_name = name,
            user_tasks = []\<rparr>]\<rparr>,
       res_redirect ''users''))"

definition post_id_delete :: "env \<Rightarrow> request \<Rightarrow> server \<Rightarrow> server \<times> outcome" where
  "post_id_delete env req st = (st, res_send ''Delete user'')"

definition post_id_tasks :: "env \<Rightarrow> request \<Rightarrow> server \<Rightarrow> server \<times> outcome" where
  "post_id_tasks env req st = (st, res_send ''Create task'')"

definition post_id_tasks_taskId_delete :: "env \<Rightarrow> request \<Rightarrow> server \<Rightarrow> server \<times> outcome" where
  "post_id_tasks_taskId_delete env req st = (st, res_send ''Delete task'')"

subsection \<open>Paths and the router\<close>

text \<open>
  Express matches on the path of the URL (the part before \<^verbatim>\<open>?\<close>). The path is cut at
  every \<^verbatim>\<open>/\<close>; the parts after the leading slash are kept as they are, empty parts
  included (\<^verbatim>\<open>/users/\<close> has the parts \<^verbatim>\<open>users\<close> and the empty one). A request
  target that does not start with \<^verbatim>\<open>/\<close> has no parts.
\<close>

definition pathname :: "string \<Rightarrow> string" where
  "pathname url = takeWhile (\<lambda>c. c \<noteq> CHR ''?'') url"

fun split_slash :: "string \<Rightarrow> string list" where
  "split_slash [] = [[]]"
| "split_slash (c # cs) =
     (if c = CHR ''/'' then [] # split_slash cs
      else (case split_slash cs of
              [] \<Rightarrow> [[c]]
            | w # ws \<Rightarrow> (c # w) # ws))"

definition path_parts :: "string \<Rightarrow> string list option" where
  "path_parts url =
     (case split_slash (pathname url) of
        [] \<Rightarrow> None
      | first # rest \<Rightarrow> if first = [] then Some rest else None)"

text \<open>
  Routing is not strict: one slash at the end of the path is ignored. It is not case
  sensitive: the letters A to Z of a literal part match in either case.
\<close>

definition strip_trailing :: "string list \<Rightarrow> string list" where
  "strip_trailing ps = (if ps \<noteq> [] \<and> last ps = [] then butlast ps else ps)"

definition lower :: "char \<Rightarrow> char" where
  "lower c =
     (case map_of (zip ''ABCDEFGHIJKLMNOPQRSTUVWXYZ'' ''abcdefghijklmnopqrstuvwxyz'') c of
        None \<Rightarrow> c
      | Some l \<Rightarrow> l)"

definition same_text :: "string \<Rightarrow> string \<Rightarrow> bool" where
  "same_text a b = (map lower a = map lower b)"

datatype seg = Lit string | Param string

fun compile_seg :: "string \<Rightarrow> seg" where
  "compile_seg [] = Lit []"
| "compile_seg (c # cs) = (if c = CHR '':'' then Param cs else Lit (c # cs))"

definition compile_path :: "string \<Rightarrow> seg list" where
  "compile_path p =
     map compile_seg (strip_trailing (case path_parts p of None \<Rightarrow> [] | Some ps \<Rightarrow> ps))"

text \<open>
  The pattern of a route against the parts of a path: a literal part matches its text,
  a named part matches any part that is not empty and captures it as it stands in the
  URL.
\<close>

fun match_path :: "seg list \<Rightarrow> string list \<Rightarrow> (string \<times> string) list option" where
  "match_path [] [] = Some []"
| "match_path (Lit s # ps) (x # xs) = (if same_text s x then match_path ps xs else None)"
| "match_path (Param k # ps) (x # xs) =
     (if x = [] then None
      else (case match_path ps xs of None \<Rightarrow> None | Some kvs \<Rightarrow> Some ((k, x) # kvs)))"
| "match_path [] (x # xs) = None"
| "match_path (p # ps) [] = None"

text \<open>
  Express passes every captured part through \<^verbatim>\<open>decodeURIComponent\<close>. That function
  fails on a \<^verbatim>\<open>%\<close> that is not followed by two hexadecimal digits, and on escaped bytes
  that are not the UTF-8 form of a character. A string is kept as its bytes, so a decoded
  character is its UTF-8 bytes.
\<close>

definition hex_value :: "char \<Rightarrow> nat option" where
  "hex_value c =
     map_of
       [(CHR ''0'', 0), (CHR ''1'', 1), (CHR ''2'', 2), (CHR ''3'', 3), (CHR ''4'', 4),
        (CHR ''5'', 5), (CHR ''6'', 6), (CHR ''7'', 7), (CHR ''8'', 8), (CHR ''9'', 9),
        (CHR ''a'', 10), (CHR ''b'', 11), (CHR ''c'', 12), (CHR ''d'', 13), (CHR ''e'', 14),
        (CHR ''f'', 15), (CHR ''A'', 10), (CHR ''B'', 11), (CHR ''C'', 12), (CHR ''D'', 13),
        (CHR ''E'', 14), (CHR ''F'', 15)] c"

text \<open>The string as plain characters (\<open>Inl\<close>) and escaped bytes (\<open>Inr\<close>).\<close>

fun octets :: "string \<Rightarrow> (char + nat) list option" where
  "octets [] = Some []"
| "octets (c # cs) =
     (if c \<noteq> CHR ''%'' then map_option ((#) (Inl c)) (octets cs)
      else (case cs of
              h1 # h2 # rest \<Rightarrow>
                (case (hex_value h1, hex_value h2) of
                   (Some a, Some b) \<Rightarrow> map_option ((#) (Inr (16 * a + b))) (octets rest)
                 | _ \<Rightarrow> None)
            | _ \<Rightarrow> None))"

text \<open>The number of bytes that follow a leading byte, and the well-formed sequences.\<close>

definition followers :: "nat \<Rightarrow> nat option" where
  "followers b =
     (if 194 \<le> b \<and> b < 224 then Some 1
      else if 224 \<le> b \<and> b < 240 then Some 2
      else if 240 \<le> b \<and> b < 245 then Some 3
      else None)"

fun escaped_byte :: "char + nat \<Rightarrow> nat option" where
  "escaped_byte (Inl c) = None"
| "escaped_byte (Inr b) = Some b"

definition well_formed :: "nat \<Rightarrow> nat list \<Rightarrow> bool" where
  "well_formed b bs =
     (list_all (\<lambda>x. 128 \<le> x \<and> x < 192) bs
      \<and> (case bs of
           [] \<Rightarrow> False
         | x # xs \<Rightarrow>
             (if b = 224 then 160 \<le> x
              else if b = 237 then x < 160
              else if b = 240 then 144 \<le> x
              else if b = 244 then x < 144
              else True)))"

function utf8 :: "(char + nat) list \<Rightarrow> string option" where
  "utf8 [] = Some []"
| "utf8 (Inl c # ts) = map_option ((#) c) (utf8 ts)"
| "utf8 (Inr b # ts) =
     (if b < 128 then map_option ((#) (char_of b)) (utf8 ts)
      else (case followers b of
              None \<Rightarrow> None
            | Some n \<Rightarrow>
                if length ts < n \<or> \<not> list_all (\<lambda>t. escaped_byte t \<noteq> None) (take n ts) then None
                else if well_formed b (map (\<lambda>t. the (escaped_byte t)) (take n ts))
                then map_option
                       ((@) (map char_of (b # map (\<lambda>t. the (escaped_byte t)) (take n ts))))
                       (utf8 (drop n ts))
                else None))"
  by pat_completeness auto
termination
  by (relation "measure length") auto

definition decodeURIComponent :: "string \<Rightarrow> string option" where
  "decodeURIComponent s = (case octets s of None \<Rightarrow> None | Some ts \<Rightarrow> utf8 ts)"

text \<open>
  The captured parts are decoded in order; the first that cannot be decoded makes the
  match fail with an error of Express.
\<close>

fun decode_params :: "(string \<times> string) list \<Rightarrow> error + (string \<times> string) list" where
  "decode_params [] = Inr []"
| "decode_params ((k, raw) # kvs) =
     (case decodeURIComponent raw of
        None \<Rightarrow> Inl (Error (''Failed to decode param '' @ [CHR 0x27] @ raw @ [CHR 0x27]))
      | Some v \<Rightarrow>
          (case decode_params kvs of
             Inl e \<Rightarrow> Inl e
           | Inr ps \<Rightarrow> Inr ((k, v) # ps)))"

text \<open>A route registered for GET also serves HEAD.\<close>

definition method_matches :: "http_method \<Rightarrow> http_method \<Rightarrow> bool" where
  "method_matches m r = (m = r \<or> (m = GET \<and> r = HEAD))"

datatype users_handler =
  GetUsers | PostUsers | PostIdDelete | PostIdTasks | PostIdTasksTaskIdDelete

fun users_call :: "env \<Rightarrow> users_handler \<Rightarrow> request \<Rightarrow> server \<Rightarrow> server \<times> outcome" where
  "users_call env GetUsers = get_users env"
| "users_call env PostUsers = post_users env"
| "users_call env PostIdDelete = post_id_delete env"
| "users_call env PostIdTasks = post_id_tasks env"
| "users_call env PostIdTasksTaskIdDelete = post_id_tasks_taskId_delete env"

type_synonym route = "http_method \<times> string \<times> users_handler"

definition router_get :: "string \<Rightarrow> users_handler \<Rightarrow> route list \<Rightarrow> route list" where
  "router_get p h r = r @ [(GET, p, h)]"

definition router_post :: "string \<Rightarrow> users_handler \<Rightarrow> route list \<Rightarrow> route list" where
  "router_post p h r = r @ [(POST, p, h)]"

text \<open>The registrations of \<^verbatim>\<open>routes/user.js\<close>, in source order.\<close>

definition router :: "route list" where
  "router =
     fold (\<lambda>register r. register r)
       [router_get ''/'' GetUsers,
        router_post ''/'' PostUsers,
        router_post ''/:id/delete'' PostIdDelete,
        router_post ''/:id/tasks'' PostIdTasks,
        router_post ''/:id/tasks/:taskId/delete'' PostIdTasksTaskIdDelete]
       []"

text \<open>
  The router goes through its routes in order; \<open>parts\<close> are the parts of the path
  below the mount point. A route whose path matches has its captures decoded, before
  the method is looked at: a failure there is handed on as an error, and no handler
  runs. Otherwise the first route whose path and method match is called, with the
  decoded captures in \<^verbatim>\<open>req.params\<close>. No handler of this router calls \<^verbatim>\<open>next()\<close>, so
  the first match decides; with no match the request leaves the router.
\<close>

fun router_handle ::
  "env \<Rightarrow> route list \<Rightarrow> string list \<Rightarrow> request \<Rightarrow> server \<Rightarrow> server \<times> outcome" where
  "router_handle env [] parts req st = (st, Next)"
| "router_handle env ((m, p, h) # rs) parts req st =
     (case match_path (compile_path p) (strip_trailing parts) of
        None \<Rightarrow> router_handle env rs parts req st
      | Some captures \<Rightarrow>
          (case decode_params captures of
             Inl e \<Rightarrow> (st, NextErr e)
           | Inr ps \<Rightarrow>
               if method_matches m (req_method req)
               then users_call env h (req\<lparr>params := ps\<rparr>) st
               else router_handle env rs parts req st))"

section \<open>The application of \<^verbatim>\<open>index.js\<close>\<close>

definition logRequestInfo :: "request \<Rightarrow> server \<Rightarrow> server \<times> outcome" where
  "logRequestInfo req st =
     (console_log [Text (method_text (req_method req) @ '' '' @ originalUrl req)] st, Next)"

definition logRequestTime :: "env \<Rightarrow> request \<Rightarrow> server \<Rightarrow> server \<times> outcome" where
  "logRequestTime env req st = (console_log [Text (''Time: '' @ clock env)] st, Next)"

definition onError :: "error \<Rightarrow> request \<Rightarrow> server \<Rightarrow> server \<times> outcome" where
  "onError err req st =
     (console_error [Obj err] st,
      res_status_send 500 (''Something went wrong: '' @ message err))"

text \<open>The handler of \<^verbatim>\<open>app.get('/')\<close>.\<close>

definition get_root :: "request \<Rightarrow> server \<Rightarrow> server \<times> outcome" where
  "get_root req st = (st, res_redirect ''users'')"

text \<open>
  The functions handed to \<^verbatim>\<open>app.use\<close> and \<^verbatim>\<open>app.get\<close>, by name, and the layers of the
  application: Express keeps one stack for both kinds of registration, in the order of
  the calls.
\<close>

datatype stage =
    ExpressStatic | ExpressJson | ExpressUrlencoded
  | LogRequestInfo | LogRequestTime
  | GetRoot | UsersRouter | OnError

datatype layer = Use string stage | Get string stage

fun layer_stage :: "layer \<Rightarrow> stage" where
  "layer_stage (Use p s) = s"
| "layer_stage (Get p s) = s"

definition app_use :: "string \<Rightarrow> stage \<Rightarrow> layer list \<Rightarrow> layer list" where
  "app_use p s a = a @ [Use p s]"

definition app_get :: "string \<Rightarrow> stage \<Rightarrow> layer list \<Rightarrow> layer list" where
  "app_get p s a = a @ [Get p s]"

text \<open>
  The registrations of \<^verbatim>\<open>index.js\<close>, in source order; \<^verbatim>\<open>app.use(fn)\<close> mounts at
  \<^verbatim>\<open>/\<close>.
\<close>

definition app :: "layer list" where
  "app =
     fold (\<lambda>register a. register a)
       [app_use ''/'' ExpressStatic,
        app_use ''/'' ExpressJson,
        app_use ''/'' ExpressUrlencoded,
        app_use ''/'' LogRequestInfo,
        app_use ''/'' LogRequestTime,
        app_get ''/'' GetRoot,
        app_use ''/users'' UsersRouter,
        app_use ''/'' OnError]
       []"

text \<open>
  A function of four parameters is an error handler: Express calls it only while an
  error is pending, and calls the others only while none is.
\<close>

fun takes_error :: "stage \<Rightarrow> bool" where
  "takes_error OnError = True"
| "takes_error s = False"

text \<open>
  Calling a stage of three (or two) parameters; \<open>rest\<close> holds the parts of the path
  below the mount point. The body decoders hand on the request with its body filled in.
  The walk never calls \<^verbatim>\<open>onError\<close> this way; its equation only makes the function
  total.
\<close>

fun call :: "env \<Rightarrow> stage \<Rightarrow> string list \<Rightarrow> request \<Rightarrow> server \<Rightarrow> request \<times> server \<times> outcome" where
  "call env ExpressStatic rest req st = (req, st, static_assets env req)"
| "call env ExpressJson rest req st =
     (case json_body env req of
        Inl e \<Rightarrow> (req, st, NextErr e)
      | Inr b \<Rightarrow> (req\<lparr>body := b\<rparr>, st, Next))"
| "call env ExpressUrlencoded rest req st =
     (case urlencoded_body env req of
        Inl e \<Rightarrow> (req, st, NextErr e)
      | Inr b \<Rightarrow> (req\<lparr>body := b\<rparr>, st, Next))"
| "call env LogRequestInfo rest req st =
     (case logRequestInfo req st of (st', out) \<Rightarrow> (req, st', out))"
| "call env LogRequestTime rest req st =
     (case logRequestTime env req st of (st', out) \<Rightarrow> (req, st', out))"
| "call env GetRoot rest req st =
     (case get_root req st of (st', out) \<Rightarrow> (req, st', out))"
| "call env UsersRouter rest req st =
     (case router_handle env router rest req st of (st', out) \<Rightarrow> (req, st', out))"
| "call env OnError rest req st = (req, st, Next)"

definition invoke ::
  "env \<Rightarrow> stage \<Rightarrow> error option \<Rightarrow> string list \<Rightarrow> request \<Rightarrow> server
     \<Rightarrow> request \<times> server \<times> outcome" where
  "invoke env s pending rest req st =
     (case pending of
        None \<Rightarrow> call env s rest req st
      | Some err \<Rightarrow> (case onError err req st of (st', out) \<Rightarrow> (req, st', out)))"

fun strip_prefix :: "string list \<Rightarrow> string list \<Rightarrow> string list option" where
  "strip_prefix [] ys = Some ys"
| "strip_prefix (x # xs) [] = None"
| "strip_prefix (x # xs) (y # ys) = (if same_text x y then strip_prefix xs ys else None)"

text \<open>
  A layer of \<^verbatim>\<open>app.use\<close> mounted at \<^verbatim>\<open>/\<close> matches every request. Mounted at another
  path it matches the paths that start with the parts of that path; what follows them
  is the path the mounted function sees, and one slash directly after the mount path
  is taken off it when more follows (\<^verbatim>\<open>/users//7\<close> is seen as \<^verbatim>\<open>/7\<close>).
\<close>

definition mount_match :: "string list \<Rightarrow> string list \<Rightarrow> string list option" where
  "mount_match ms ps =
     (case strip_prefix ms ps of
        None \<Rightarrow> None
      | Some [] \<Rightarrow> Some []
      | Some (x # xs) \<Rightarrow> if x = [] \<and> xs \<noteq> [] then Some xs else Some (x # xs))"

text \<open>
  A layer of \<^verbatim>\<open>app.get\<close> matches its path only, for GET and HEAD. (The one route of
  the application has no named part, so nothing is decoded here.)
\<close>

fun layer_match :: "layer \<Rightarrow> request \<Rightarrow> string list option" where
  "layer_match (Use p s) req =
     (if p = ''/'' then
        Some (case path_parts (originalUrl req) of None \<Rightarrow> [] | Some ps \<Rightarrow> ps)
      else
        (case path_parts (originalUrl req) of
           None \<Rightarrow> None
         | Some ps \<Rightarrow>
             mount_match
               (strip_trailing (case path_parts p of None \<Rightarrow> [] | Some ms \<Rightarrow> ms)) ps))"
| "layer_match (Get p s) req =
     (case path_parts (originalUrl req) of
        None \<Rightarrow> None
      | Some ps \<Rightarrow>
          if method_matches GET (req_method req)
             \<and> match_path (compile_path p) (strip_trailing ps) \<noteq> None
          then Some [] else None)"

text \<open>
  How a request ends: with the response of a stage, or with no stage having answered,
  where Express itself takes over (its answer to an unknown path, to a pending error,
  or to \<^verbatim>\<open>OPTIONS\<close>).
\<close>

datatype final = Response response | Unanswered "error option"

fun visit :: "stage \<Rightarrow> stage list \<times> server \<times> final \<Rightarrow> stage list \<times> server \<times> final" where
  "visit s (tr, st, fin) = (s # tr, st, fin)"

text \<open>
  The walk of Express down the stack. It returns the stages it called, in order, the
  state, and how the request ended. A thrown error and an error handed to \<^verbatim>\<open>next\<close>
  both become the pending error.
\<close>

fun dispatch ::
  "env \<Rightarrow> layer list \<Rightarrow> error option \<Rightarrow> request \<Rightarrow> server \<Rightarrow> stage list \<times> server \<times> final" where
  "dispatch env [] pending req st = ([], st, Unanswered pending)"
| "dispatch env (l # ls) pending req st =
     (case layer_match l req of
        None \<Rightarrow> dispatch env ls pending req st
      | Some rest \<Rightarrow>
          if takes_error (layer_stage l) \<noteq> (pending \<noteq> None)
          then dispatch env ls pending req st
          else
            (case invoke env (layer_stage l) pending rest req st of
               (req', st', out) \<Rightarrow>
                 (case out of
                    Responded r \<Rightarrow> ([layer_stage l], st', Response r)
                  | Next \<Rightarrow> visit (layer_stage l) (dispatch env ls None req' st')
                  | NextErr e \<Rightarrow> visit (layer_stage l) (dispatch env ls (Some e) req' st')
                  | Thrown e \<Rightarrow> visit (layer_stage l) (dispatch env ls (Some e) req' st'))))"

text \<open>
  The address a redirect leads to: a \<^verbatim>\<open>Location\<close> that starts with \<^verbatim>\<open>/\<close> is the path
  itself, any other replaces the last segment of the path of the request.
\<close>

definition resolve_reference :: "string \<Rightarrow> string \<Rightarrow> string" where
  "resolve_reference base ref =
     (case ref of
        [] \<Rightarrow> base
      | c # cs \<Rightarrow>
          if c = CHR ''/'' then ref
          else rev (dropWhile (\<lambda>c. c \<noteq> CHR ''/'') (rev base)) @ ref)"

definition redirect_target :: "request \<Rightarrow> response \<Rightarrow> string option" where
  "redirect_target req r =
     (case r of
        Redirect code loc \<Rightarrow> Some (resolve_reference (pathname (originalUrl req)) loc)
      | Send code text \<Rightarrow> None
      | View view locals \<Rightarrow> None)"

section \<open>The models module\<close>

record model =
  model_name :: string
  attributes :: "(string \<times> coltype) list"

text \<open>
  The \<^verbatim>\<open>Sequelize\<close> instance: the models defined on it, and its associations as
  pairs (owner, owned).
\<close>

record sequelize =
  models :: "model list"
  associations :: "(string \<times> string) list"

definition new_Sequelize :: sequelize where
  "new_Sequelize = \<lparr>models = [], associations = []\<rparr>"

definition sequelize_define :: "string \<Rightarrow> (string \<times> coltype) list \<Rightarrow> sequelize \<Rightarrow> sequelize" where
  "sequelize_define n attrs sq = sq\<lparr>models := models sq @ [\<lparr>model_name = n, attributes = attrs\<rparr>]\<rparr>"

text \<open>The instance after the module has run: one model, \<^verbatim>\<open>user\<close>.\<close>

definition sequelize_instance :: sequelize where
  "sequelize_instance = sequelize_define ''user'' [(''name'', STRING)] new_Sequelize"

text \<open>
  \<^verbatim>\<open>sequelize.sync()\<close> creates the table of every defined model that has none yet, and
  leaves an existing table as it is. A table is kept under the name of its model, with
  the columns the model declares (the columns the library adds to every table are left
  out) and a foreign key to every model that owns it.
\<close>

definition table_of :: "sequelize \<Rightarrow> model \<Rightarrow> table" where
  "table_of sq m =
     \<lparr>columns = attributes m,
      foreign_keys = map fst (filter (\<lambda>a. snd a = model_name m) (associations sq))\<rparr>"

definition create_table_if_absent ::
  "sequelize \<Rightarrow> model \<Rightarrow> (string \<times> table) list \<Rightarrow> (string \<times> table) list" where
  "create_table_if_absent sq m db =
     (if model_name m \<in> set (map fst db) then db else db @ [(model_name m, table_of sq m)])"

definition sync_tables :: "sequelize \<Rightarrow> (string \<times> table) list \<Rightarrow> (string \<times> table) list" where
  "sync_tables sq db = fold (create_table_if_absent sq) (models sq) db"

datatype promise = Fulfilled | Rejected error

text \<open>
  \<^verbatim>\<open>dbInit\<close>: the \<^verbatim>\<open>try\<close> block holds \<^verbatim>\<open>authenticate\<close> and the success message, the
  \<^verbatim>\<open>catch\<close> block logs; \<^verbatim>\<open>await sequelize.sync()\<close> follows the \<^verbatim>\<open>try\<close> statement, so
  its rejection is the rejection of the promise \<^verbatim>\<open>dbInit\<close> returns. A rejected
  \<^verbatim>\<open>sync\<close> is taken to leave the tables as they were.
\<close>

definition dbInit :: "env \<Rightarrow> server \<Rightarrow> server \<times> promise" where
  "dbInit env st =
     (let st1 =
        (case authenticate env of
           None \<Rightarrow> console_log [Text ''Connection has been established successfully.''] st
         | Some e \<Rightarrow> console_error [Text ''Unable to dbInit to the database:'', Obj e] st)
      in case sync_error env of
           Some e \<Rightarrow> (st1, Rejected e)
         | None \<Rightarrow> (st1\<lparr>tables := sync_tables sequelize_instance (tables st1)\<rparr>, Fulfilled))"

text \<open>
  \<^verbatim>\<open>index.js\<close> calls \<^verbatim>\<open>dbInit()\<close> as a statement: the promise is dropped, and a
  rejection of it is handled by nobody. The second component is that unhandled
  rejection.
\<close>

definition index_dbInit :: "env \<Rightarrow> server \<Rightarrow> server \<times> error option" where
  "index_dbInit env st =
     (case dbInit env st of
        (st', Fulfilled) \<Rightarrow> (st', None)
      | (st', Rejected e) \<Rightarrow> (st', Some e))"

section \<open>Sequences of requests and the resolution of a user id\<close>

text \<open>
  The state after a sequence of \<^verbatim>\<open>POST /users\<close> requests, each with its own
  environment (its own value of \<^verbatim>\<open>Math.random()\<close>) and request.
\<close>

fun create_users :: "(env \<times> request) list \<Rightarrow> server \<Rightarrow> server" where
  "create_users [] st = st"
| "create_users (op # ops) st = create_users ops (fst (post_users (fst op) (snd op) st))"

text \<open>
  The specification speaks of a userId that resolves to an existing User. The handlers
  never look a user up; to state that property, a \<^verbatim>\<open>:id\<close> segment is taken to resolve
  when it is the decimal text of the id of a stored user.
\<close>

definition digit_char :: "nat \<Rightarrow> char" where
  "digit_char d = ''0123456789'' ! d"

fun nat_text :: "nat \<Rightarrow> string" where
  "nat_text n =
     (if n < 10 then [digit_char n] else nat_text (n div 10) @ [digit_char (n mod 10)])"

declare nat_text.simps [simp del]

definition int_text :: "int \<Rightarrow> string" where
  "int_text i = (if i < 0 then CHR ''-'' # nat_text (nat (- i)) else nat_text (nat i))"

definition resolves_to_user :: "string \<Rightarrow> server \<Rightarrow> bool" where
  "resolves_to_user t st = (t \<in> set (map (\<lambda>u. int_text (user_id u)) (users st)))"

section \<open>The pipeline in the words of the specification\<close>

text \<open>
  The specification describes the pipeline as a chain: the stages are called one after
  the other; a stage that answers ends the chain, a stage that calls the continuation
  passes the request to the next stage, and a stage that fails skips the remaining
  stages and goes to the error-handling stage. \<open>spec_stages\<close> is that chain for a
  list of stages with their mount paths, \<open>spec_pipeline\<close> the chain of the stages the
  specification lists, in its order, with \<^verbatim>\<open>onError\<close> as the error-handling stage.
\<close>

definition spec_error :: "error \<Rightarrow> request \<Rightarrow> server \<Rightarrow> stage list \<times> server \<times> final" where
  "spec_error e req st =
     (case onError e req st of
        (st', out) \<Rightarrow>
          (case out of
             Responded r \<Rightarrow> ([OnError], st', Response r)
           | Next \<Rightarrow> ([OnError], st', Unanswered None)
           | NextErr e' \<Rightarrow> ([OnError], st', Unanswered (Some e'))
           | Thrown e' \<Rightarrow> ([OnError], st', Unanswered (Some e'))))"

fun spec_stages ::
  "env \<Rightarrow> (string \<times> stage) list \<Rightarrow> request \<Rightarrow> server \<Rightarrow> stage list \<times> server \<times> final" where
  "spec_stages env [] req st = ([], st, Unanswered None)"
| "spec_stages env ((mount, s) # ss) req st =
     (case layer_match (Use mount s) req of
        None \<Rightarrow> spec_stages env ss req st
      | Some rest \<Rightarrow>
          (case call env s rest req st of
             (req', st', out) \<Rightarrow>
               (case out of
                  Responded r \<Rightarrow> ([s], st', Response r)
                | Next \<Rightarrow> visit s (spec_stages env ss req' st')
                | NextErr e \<Rightarrow> visit s (spec_error e req' st')
                | Thrown e \<Rightarrow> visit s (spec_error e req' st'))))"

definition spec_pipeline :: "env \<Rightarrow> request \<Rightarrow> server \<Rightarrow> stage list \<times> server \<times> final" where
  "spec_pipeline env req st =
     spec_stages env
       [(''/'', ExpressStatic), (''/'', ExpressJson), (''/'', ExpressUrlencoded),
        (''/'', LogRequestInfo), (''/'', LogRequestTime), (''/users'', UsersRouter)]
       req st"

section \<open>Fixtures\<close>

text \<open>
  An environment in which nothing fails and no static file matches, a state with the
  module's initial user list and an empty database, and a request.
\<close>

definition calm :: env where
  "calm =
     \<lparr>static_assets = (\<lambda>req. Next), json_body = (\<lambda>req. Inr (body req)),
      urlencoded_body = (\<lambda>req. Inr (body req)),
      clock = ''10:15:00 AM'', random = 1 / 8, view_error = (\<lambda>view locals. None),
      authenticate = None, sync_error = None\<rparr>"

definition fresh :: server where
  "fresh = \<lparr>users = initial_users, console = [], tables = []\<rparr>"

definition request_of :: "http_method \<Rightarrow> string \<Rightarrow> (string \<times> string) list \<Rightarrow> request" where
  "request_of m url form = \<lparr>req_method = m, originalUrl = url, body = map_of form, params = []\<rparr>"

section \<open>The registrations, evaluated\<close>

lemma compile_root: "compile_path ''/'' = []"
  by (simp add: compile_path_def path_parts_def pathname_def strip_trailing_def)

lemma compile_id_delete: "compile_path ''/:id/delete'' = [Param ''id'', Lit ''delete'']"
  by (simp add: compile_path_def path_parts_def pathname_def strip_trailing_def)

lemma compile_id_tasks: "compile_path ''/:id/tasks'' = [Param ''id'', Lit ''tasks'']"
  by (simp add: compile_path_def path_parts_def pathname_def strip_trailing_def)

lemma compile_id_tasks_taskId_delete:
  "compile_path ''/:id/tasks/:taskId/delete'' =
     [Param ''id'', Lit ''tasks'', Param ''taskId'', Lit ''delete'']"
  by (simp add: compile_path_def path_parts_def pathname_def strip_trailing_def)

lemmas compile_routes =
  compile_root compile_id_delete compile_id_tasks compile_id_tasks_taskId_delete

lemma router_routes:
  "router =
     [(GET, ''/'', GetUsers), (POST, ''/'', PostUsers),
      (POST, ''/:id/delete'', PostIdDelete), (POST, ''/:id/tasks'', PostIdTasks),
      (POST, ''/:id/tasks/:taskId/delete'', PostIdTasksTaskIdDelete)]"
  by (simp add: router_def router_get_def router_post_def)

lemma app_layers:
  "app =
     [Use ''/'' ExpressStatic, Use ''/'' ExpressJson, Use ''/'' ExpressUrlencoded,
      Use ''/'' LogRequestInfo, Use ''/'' LogRequestTime, Get ''/'' GetRoot,
      Use ''/users'' UsersRouter, Use ''/'' OnError]"
  by (simp add: app_def app_use_def app_get_def)

lemma literal_parts:
  "same_text s s"
  "\<not> same_text ''delete'' ''tasks''"
  "\<not> same_text ''tasks'' ''delete''"
  by (simp_all add: same_text_def lower_def)

lemmas run_simps =
  app_layers calm_def fresh_def request_of_def pathname_def path_parts_def strip_trailing_def
  mount_match_def same_text_def lower_def decodeURIComponent_def hex_value_def invoke_def
  logRequestInfo_def logRequestTime_def console_log_def console_error_def router_routes
  compile_routes method_matches_def post_id_tasks_def res_send_def get_root_def
  res_redirect_def onError_def res_status_send_def initial_users_def

section \<open>The handlers of the user router\<close>

lemma id_route:
  "router_handle env router [i, ''delete''] (req\<lparr>req_method := POST\<rparr>) st =
     (if i = [] then (st, Next)
      else (case decodeURIComponent i of
              None \<Rightarrow>
                (st, NextErr (Error (''Failed to decode param '' @ [CHR 0x27] @ i @ [CHR 0x27])))
            | Some v \<Rightarrow> (st, Responded (Send 200 ''Delete user''))))"
  "router_handle env router [i, ''tasks''] (req\<lparr>req_method := POST\<rparr>) st =
     (if i = [] then (st, Next)
      else (case decodeURIComponent i of
              None \<Rightarrow>
                (st, NextErr (Error (''Failed to decode param '' @ [CHR 0x27] @ i @ [CHR 0x27])))
            | Some v \<Rightarrow> (st, Responded (Send 200 ''Create task''))))"
  by (simp_all add: router_routes compile_routes strip_trailing_def literal_parts
      method_matches_def post_id_delete_def post_id_tasks_def res_send_def
      split: option.splits)

lemma task_route:
  "router_handle env router [i, ''tasks'', t, ''delete''] (req\<lparr>req_method := POST\<rparr>) st =
     (if i = [] \<or> t = [] then (st, Next)
      else (case decodeURIComponent i of
              None \<Rightarrow>
                (st, NextErr (Error (''Failed to decode param '' @ [CHR 0x27] @ i @ [CHR 0x27])))
            | Some v \<Rightarrow>
                (case decodeURIComponent t of
                   None \<Rightarrow>
                     (st, NextErr
                        (Error (''Failed to decode param '' @ [CHR 0x27] @ t @ [CHR 0x27])))
                 | Some w \<Rightarrow> (st, Responded (Send 200 ''Delete task'')))))"
  by (simp add: router_routes compile_routes strip_trailing_def literal_parts
      method_matches_def post_id_tasks_taskId_delete_def res_send_def
      split: option.splits)

text \<open>
  C7. The delete-user and delete-task handlers delete nothing: for every request, hence
  for every id and taskId they are called with, they answer with status 200 and the
  texts \<^verbatim>\<open>Delete user\<close> and \<^verbatim>\<open>Delete task\<close>, and the state (the stored users with their
  tasks) is the same after the request as before. Through the router: a
  \<^verbatim>\<open>POST /:id/delete\<close> or \<^verbatim>\<open>POST /:id/tasks/:taskId/delete\<close> leaves the state as it was
  whatever stands in the two named parts, and is answered by these handlers whenever
  the named parts are not empty and can be decoded, that is, whenever they hold an id
  and a taskId at all.
\<close>

theorem delete_handlers_delete_nothing:
  "post_id_delete env req st = (st, Responded (Send 200 ''Delete user''))
   \<and> post_id_tasks_taskId_delete env req st = (st, Responded (Send 200 ''Delete task''))
   \<and> fst (router_handle env router [i, ''delete''] (req\<lparr>req_method := POST\<rparr>) st) = st
   \<and> fst (router_handle env router [i, ''tasks'', t, ''delete''] (req\<lparr>req_method := POST\<rparr>) st)
       = st
   \<and> (i \<noteq> [] \<and> decodeURIComponent i \<noteq> None \<longrightarrow>
        router_handle env router [i, ''delete''] (req\<lparr>req_method := POST\<rparr>) st
          = (st, Responded (Send 200 ''Delete user'')))
   \<and> (i \<noteq> [] \<and> t \<noteq> [] \<and> decodeURIComponent i \<noteq> None \<and> decodeURIComponent t \<noteq> None \<longrightarrow>
        router_handle env router [i, ''tasks'', t, ''delete''] (req\<lparr>req_method := POST\<rparr>) st
          = (st, Responded (Send 200 ''Delete task'')))"
  by (auto simp: id_route task_route post_id_delete_def post_id_tasks_taskId_delete_def
      res_send_def split: option.splits)

theorem delete_handlers_delete_nothing_witness:
  "router_handle calm router [''7'', ''delete''] (request_of POST ''/users/7/delete'' []) fresh
     = (fresh, Responded (Send 200 ''Delete user''))
   \<and> router_handle calm router [''7'', ''tasks'', ''3'', ''delete'']
       (request_of POST ''/users/7/tasks/3/delete'' []) fresh
     = (fresh, Responded (Send 200 ''Delete task''))"
  using delete_handlers_delete_nothing
    [of calm "request_of POST ''/users/7/delete'' []" fresh "''7''" "''3''"]
    delete_handlers_delete_nothing
    [of calm "request_of POST ''/users/7/tasks/3/delete'' []" fresh "''7''" "''3''"]
  by (simp add: request_of_def decodeURIComponent_def)

text \<open>
  C1, as the code has it. The create-task handler is a placeholder: for every request,
  whether or not its \<^verbatim>\<open>:id\<close> resolves to a stored user, it answers with status 200 and
  the text \<^verbatim>\<open>Create task\<close>, raises no error, and leaves the state (so the number of
  tasks) as it was. Through the router: a \<^verbatim>\<open>POST /:id/tasks\<close> leaves the state as it was
  whatever stands in the named part, and is answered by this handler whenever the
  named part is not empty and can be decoded.
\<close>

theorem create_task_placeholder:
  "post_id_tasks env req st = (st, Responded (Send 200 ''Create task''))
   \<and> fst (router_handle env router [i, ''tasks''] (req\<lparr>req_method := POST\<rparr>) st) = st
   \<and> (i \<noteq> [] \<and> decodeURIComponent i \<noteq> None \<longrightarrow>
        router_handle env router [i, ''tasks''] (req\<lparr>req_method := POST\<rparr>) st
          = (st, Responded (Send 200 ''Create task'')))"
  by (auto simp: id_route post_id_tasks_def res_send_def split: option.splits)

theorem create_task_placeholder_witness:
  "router_handle calm router [''999'', ''tasks''] (request_of POST ''/users/999/tasks'' []) fresh
     = (fresh, Responded (Send 200 ''Create task''))"
  using create_task_placeholder
    [of calm "request_of POST ''/users/999/tasks'' []" fresh "''999''"]
  by (simp add: request_of_def decodeURIComponent_def)

text \<open>
  The claim that an unknown user makes the operation fail does not hold: the stored
  user has id 1, the request names user 999, and the answer is the placeholder, all the
  way through the application.
\<close>

theorem create_task_counterexample:
  "\<not> resolves_to_user ''999'' fresh
   \<and> \<not> failed (snd (post_id_tasks calm (request_of POST ''/users/999/tasks'' []) fresh))
   \<and> dispatch calm app None (request_of POST ''/users/999/tasks'' []) fresh =
      ([ExpressStatic, ExpressJson, ExpressUrlencoded, LogRequestInfo, LogRequestTime,
        UsersRouter],
       fresh\<lparr>console := [ConsoleLog [Text ''POST /users/999/tasks''],
                          ConsoleLog [Text ''Time: 10:15:00 AM'']]\<rparr>,
       Response (Send 200 ''Create task''))"
  by (simp add: resolves_to_user_def int_text_def nat_text.simps digit_char_def run_simps)

text \<open>
  A named part that cannot be decoded never reaches a handler: Express fails, and
  \<^verbatim>\<open>onError\<close> answers.
\<close>

lemma undecodable_id:
  "dispatch calm app None (request_of POST ''/users/%zz/delete'' []) fresh =
     ([ExpressStatic, ExpressJson, ExpressUrlencoded, LogRequestInfo, LogRequestTime,
       UsersRouter, OnError],
      fresh\<lparr>console := [ConsoleLog [Text ''POST /users/%zz/delete''],
                         ConsoleLog [Text ''Time: 10:15:00 AM''],
                         ConsoleError [Obj (Error (''Failed to decode param ''
                            @ [CHR 0x27] @ ''%zz'' @ [CHR 0x27]))]]\<rparr>,
      Response (Send 500 (''Something went wrong: Failed to decode param ''
         @ [CHR 0x27] @ ''%zz'' @ [CHR 0x27])))"
  by (simp add: run_simps)

section \<open>The identifiers of created users\<close>

lemma spacing_step:
  "0 < n \<Longrightarrow>
   spacing n hi x = (if hi / 2 \<le> x then hi / 2 ^ 53 else spacing (n - 1) (hi / 2) x)"
  by (cases n) simp_all

lemma floor_rat_numeral_div: "\<lfloor>(numeral a :: rat) / numeral b\<rfloor> = numeral a div numeral b"
  by (metis floor_divide_of_int_eq of_int_numeral)

lemmas double_eval =
  times_double_def to_double_def Let_def spacing_step round_half_even_def Math_round_def
  floor_rat_numeral_div

text \<open>
  The doubles nearest to 0.95, 0.9, 0.35 and 0.4. The exact product of the first with
  10 lies below 9.5 and is rounded to 9.5; that of the third is a tie between 3.5 and
  the double below it.
\<close>

lemma draws_evaluated:
  "Math_round (times_double (1 / 8) 10) = 1"
  "Math_round (times_double (4278419646001971 / 4503599627370496) 10) = 10"
  "Math_round (times_double (8106479329266893 / 9007199254740992) 10) = 9"
  "Math_round (times_double (3152519739159347 / 9007199254740992) 10) = 4"
  "Math_round (times_double (3602879701896397 / 9007199254740992) 10) = 4"
  by (simp_all add: double_eval)

lemma spacing_form: "\<exists>j\<ge>53. spacing n hi x = hi / 2 ^ j"
proof (induction n arbitrary: hi)
  case 0
  show ?case by auto
next
  case (Suc n)
  obtain j where j: "53 \<le> j" "spacing n (hi / 2) x = hi / 2 / 2 ^ j"
    using Suc.IH [of "hi / 2"] by blast
  show ?case
  proof (cases "hi / 2 \<le> x")
    case True
    then show ?thesis by auto
  next
    case False
    have "spacing (Suc n) hi x = hi / 2 ^ Suc j"
      using False j by simp
    moreover have "53 \<le> Suc j" using j by simp
    ultimately show ?thesis by blast
  qed
qed

lemma round_half_even_le:
  assumes "x \<le> of_int k"
  shows "round_half_even x \<le> k"
proof (cases "x - of_int \<lfloor>x\<rfloor> < 1 / 2")
  case True
  have "\<lfloor>x\<rfloor> \<le> k" using assms by (simp add: floor_le_iff)
  with True show ?thesis by (simp add: round_half_even_def Let_def)
next
  case False
  then have "of_int \<lfloor>x\<rfloor> < x" by linarith
  with assms have "(of_int \<lfloor>x\<rfloor> :: rat) < of_int k" by linarith
  then have "\<lfloor>x\<rfloor> < k" by simp
  then show ?thesis by (simp add: round_half_even_def Let_def)
qed

lemma round_half_even_nonneg: "0 \<le> x \<Longrightarrow> 0 \<le> round_half_even x"
  by (simp add: round_half_even_def Let_def)

text \<open>Rounding to a double keeps a value of \<open>[0, 10]\<close> in \<open>[0, 10]\<close>.\<close>

lemma to_double_bounds:
  assumes "0 \<le> x" and "x \<le> 10"
  shows "0 \<le> to_double x \<and> to_double x \<le> 10"
proof -
  obtain j where j: "53 \<le> j" and s: "spacing 1025 16 x = 16 / 2 ^ j"
    using spacing_form by blast
  from j have "4 \<le> j" by simp
  then obtain m where m: "j = 4 + m"
    using le_Suc_ex by blast
  define u :: rat where "u = 1 / 2 ^ m"
  have su: "spacing 1025 16 x = u"
    by (simp add: s m u_def power_add)
  have pos: "0 < u" by (simp add: u_def)
  have ten: "10 / u = of_int (10 * 2 ^ m)"
    by (simp add: u_def)
  have "x / u \<le> 10 / u"
    using assms(2) pos by (simp add: divide_right_mono)
  then have "x / u \<le> of_int (10 * 2 ^ m)"
    by (simp only: ten)
  then have "round_half_even (x / u) \<le> 10 * 2 ^ m"
    by (rule round_half_even_le)
  then have "(of_int (round_half_even (x / u)) :: rat) \<le> of_int (10 * 2 ^ m)"
    by (simp only: of_int_le_iff)
  then have "of_int (round_half_even (x / u)) * u \<le> of_int (10 * 2 ^ m) * u"
    using pos by (intro mult_right_mono) simp_all
  moreover have "of_int (10 * 2 ^ m) * u = 10"
    by (simp add: u_def)
  ultimately have up: "of_int (round_half_even (x / u)) * u \<le> 10"
    by (simp only:)
  have "0 \<le> x / u" using assms(1) pos by simp
  then have "0 \<le> round_half_even (x / u)" by (rule round_half_even_nonneg)
  then have lo: "0 \<le> of_int (round_half_even (x / u)) * u"
    using pos by simp
  show ?thesis using lo up by (simp add: to_double_def Let_def su)
qed

lemma Math_round_range:
  assumes "0 \<le> r" and "r < 1"
  shows "Math_round (times_double r 10) \<in> {0..10}"
proof -
  have "0 \<le> to_double (r * 10) \<and> to_double (r * 10) \<le> 10"
    using assms by (intro to_double_bounds) simp_all
  then show ?thesis
    by (auto simp: Math_round_def times_double_def le_floor_iff floor_le_iff)
qed

lemma ids_create_users:
  "map user_id (users (create_users ops st)) =
     map user_id (users st) @ map (\<lambda>op. Math_round (times_double (random (fst op)) 10)) ops"
  by (induction ops arbitrary: st) (simp_all add: post_users_def)

text \<open>
  C2, as the code has it. Starting from the module's initial list (one user, id 1), the
  identifiers in the state after any sequence of create-user operations are pairwise
  distinct exactly when the identifiers those operations drew,
  \<^verbatim>\<open>Math.round(Math.random() * 10)\<close>, are pairwise distinct and none of them is 1. The
  handler never compares a new identifier with the stored ones.
\<close>

theorem identifiers_distinct_iff:
  "distinct (map user_id (users (create_users ops (st\<lparr>users := initial_users\<rparr>))))
     = distinct (1 # map (\<lambda>op. Math_round (times_double (random (fst op)) 10)) ops)"
  by (simp add: ids_create_users initial_users_def)

text \<open>With the doubles 0.95 and 0.9 drawn, the identifiers are 1, 10 and 9.\<close>

theorem identifiers_distinct_iff_witness:
  "map user_id (users (create_users
      [(calm\<lparr>random := 4278419646001971 / 4503599627370496\<rparr>,
        request_of POST ''/users'' [(''name'', ''Bob'')]),
       (calm\<lparr>random := 8106479329266893 / 9007199254740992\<rparr>,
        request_of POST ''/users'' [(''name'', ''Eve'')])]
      (fresh\<lparr>users := initial_users\<rparr>))) = [1, 10, 9]
   \<and> distinct (map user_id (users (create_users
      [(calm\<lparr>random := 4278419646001971 / 4503599627370496\<rparr>,
        request_of POST ''/users'' [(''name'', ''Bob'')]),
       (calm\<lparr>random := 8106479329266893 / 9007199254740992\<rparr>,
        request_of POST ''/users'' [(''name'', ''Eve'')])]
      (fresh\<lparr>users := initial_users\<rparr>))))"
  using identifiers_distinct_iff
    [of "[(calm\<lparr>random := 4278419646001971 / 4503599627370496\<rparr>,
           request_of POST ''/users'' [(''name'', ''Bob'')]),
          (calm\<lparr>random := 8106479329266893 / 9007199254740992\<rparr>,
           request_of POST ''/users'' [(''name'', ''Eve'')])]" fresh]
  by (simp add: ids_create_users initial_users_def draws_evaluated del: create_users.simps)

text \<open>
  Uniqueness fails in a reachable state: with \<^verbatim>\<open>Math.random()\<close> returning 0.125 the new
  user gets \<^verbatim>\<open>Math.round(1.25) = 1\<close>, the id of the initial user.
\<close>

theorem identifiers_unique_counterexample:
  "users (create_users [(calm, request_of POST ''/users'' [(''name'', ''Bob'')])] fresh) =
     [\<lparr>user_id = 1, user_name = Some ''Antonio'', user_tasks = []\<rparr>,
      \<lparr>user_id = 1, user_name = Some ''Bob'', user_tasks = []\<rparr>]
   \<and> \<not> distinct (map user_id
        (users (create_users [(calm, request_of POST ''/users'' [(''name'', ''Bob'')])] fresh)))"
  by (simp add: post_users_def calm_def fresh_def initial_users_def request_of_def
      draws_evaluated res_redirect_def)

text \<open>Two users created with the doubles 0.35 and 0.4 drawn both get the id 4.\<close>

lemma identifiers_collide_at_four:
  "map user_id (users (create_users
      [(calm\<lparr>random := 3152519739159347 / 9007199254740992\<rparr>,
        request_of POST ''/users'' [(''name'', ''Bob'')]),
       (calm\<lparr>random := 3602879701896397 / 9007199254740992\<rparr>,
        request_of POST ''/users'' [(''name'', ''Eve'')])]
      fresh)) = [1, 4, 4]"
  by (simp add: ids_create_users fresh_def initial_users_def draws_evaluated
      del: create_users.simps)

text \<open>
  C10. \<^verbatim>\<open>Math.random()\<close> returns a value in \<open>[0, 1)\<close>. Then, for every sequence of
  create-user operations from every state, the identifiers given to the new users are
  \<^verbatim>\<open>Math.round\<close> of the drawn values times ten (the product rounded to a double as the
  code computes it), whatever the state holds, so they are chosen independently of the
  stored identifiers; each is an integer from 0 to 10; and at most 11 distinct
  identifiers are assigned.
\<close>

theorem assigned_identifiers:
  assumes "\<forall>op \<in> set ops. 0 \<le> random (fst op) \<and> random (fst op) < 1"
  shows "map user_id (drop (length (users st)) (users (create_users ops st)))
           = map (\<lambda>op. Math_round (times_double (random (fst op)) 10)) ops
       \<and> set (map user_id (drop (length (users st)) (users (create_users ops st)))) \<subseteq> {0..10}
       \<and> card (set (map user_id (drop (length (users st)) (users (create_users ops st))))) \<le> 11"
proof -
  let ?new = "map user_id (drop (length (users st)) (users (create_users ops st)))"
  have "?new = drop (length (users st)) (map user_id (users (create_users ops st)))"
    by (simp add: drop_map)
  then have ids: "?new = map (\<lambda>op. Math_round (times_double (random (fst op)) 10)) ops"
    by (simp add: ids_create_users)
  have range: "set ?new \<subseteq> {0..10}"
    unfolding ids using assms Math_round_range by auto
  have "card (set ?new) \<le> card {0..10::int}"
    using range by (intro card_mono) simp_all
  then have "card (set ?new) \<le> 11" by simp
  with ids range show ?thesis by blast
qed

text \<open>With 0.125 and the double 0.95 drawn, the new identifiers are 1 and 10.\<close>

theorem assigned_identifiers_witness:
  "map user_id (drop (length (users fresh))
        (users (create_users
          [(calm, request_of POST ''/users'' [(''name'', ''Bob'')]),
           (calm\<lparr>random := 4278419646001971 / 4503599627370496\<rparr>,
            request_of POST ''/users'' [(''name'', ''Eve'')])]
          fresh)))
     = [1, 10]"
  using assigned_identifiers
    [of "[(calm, request_of POST ''/users'' [(''name'', ''Bob'')]),
          (calm\<lparr>random := 4278419646001971 / 4503599627370496\<rparr>,
           request_of POST ''/users'' [(''name'', ''Eve'')])]"
        fresh]
  by (simp add: calm_def draws_evaluated)

section \<open>Creating and listing users\<close>

text \<open>
  C5. A \<^verbatim>\<open>POST\<close> to \<^verbatim>\<open>/users/\<close> with a \<^verbatim>\<open>name\<close> field reaches the handler of \<^verbatim>\<open>POST /\<close>,
  which appends the user and answers 302 with the \<^verbatim>\<open>Location\<close> \<^verbatim>\<open>users\<close>, a relative
  reference: the redirect leads to \<^verbatim>\<open>/users/users\<close>, not to \<^verbatim>\<open>/users\<close>.
\<close>

theorem post_users_relative_redirect:
  "dispatch calm app None (request_of POST ''/users/'' [(''name'', ''Bob'')]) fresh =
     ([ExpressStatic, ExpressJson, ExpressUrlencoded, LogRequestInfo, LogRequestTime,
       UsersRouter],
      fresh\<lparr>users := [\<lparr>user_id = 1, user_name = Some ''Antonio'', user_tasks = []\<rparr>,
                        \<lparr>user_id = 1, user_name = Some ''Bob'', user_tasks = []\<rparr>],
             console := [ConsoleLog [Text ''POST /users/''],
                         ConsoleLog [Text ''Time: 10:15:00 AM'']]\<rparr>,
      Response (Redirect 302 ''users''))
   \<and> redirect_target (request_of POST ''/users/'' [(''name'', ''Bob'')]) (Redirect 302 ''users'')
       = Some ''/users/users''"
  by (simp add: run_simps post_users_def draws_evaluated redirect_target_def
      resolve_reference_def)

text \<open>
  For a request to \<^verbatim>\<open>/users\<close> itself the same \<^verbatim>\<open>Location\<close> leads to \<^verbatim>\<open>/users\<close>.
\<close>

lemma post_users_redirect_without_slash:
  "redirect_target (request_of POST ''/users'' [(''name'', ''Bob'')]) (Redirect 302 ''users'')
     = Some ''/users''"
  by (simp add: request_of_def pathname_def redirect_target_def resolve_reference_def)

text \<open>
  C6. From the module's initial list, creating a user named Alice and then listing
  (\<^verbatim>\<open>GET /\<close> of the router, the view engine not failing) hands the view the initial
  user followed by the new one; exactly one entry of that list is named Alice, and its
  task list is empty.
\<close>

theorem create_alice_then_list:
  assumes "body req ''name'' = Some ''Alice''"
    and "view_error env' ''users.pug''
           (users (fst (post_users env req (st\<lparr>users := initial_users\<rparr>)))) = None"
  shows "snd (get_users env' req' (fst (post_users env req (st\<lparr>users := initial_users\<rparr>)))) =
           Responded (View ''users.pug''
              [\<lparr>user_id = 1, user_name = Some ''Antonio'', user_tasks = []\<rparr>,
               \<lparr>user_id = Math_round (times_double (random env) 10),
                user_name = Some ''Alice'', user_tasks = []\<rparr>])
       \<and> filter (\<lambda>u. user_name u = Some ''Alice'')
            (users (fst (post_users env req (st\<lparr>users := initial_users\<rparr>)))) =
           [\<lparr>user_id = Math_round (times_double (random env) 10), user_name = Some ''Alice'',
             user_tasks = []\<rparr>]"
  using assms
  by (simp add: get_users_def res_render_def post_users_def initial_users_def)

theorem create_alice_then_list_witness:
  "snd (get_users calm (request_of GET ''/users'' [])
          (fst (post_users calm (request_of POST ''/users'' [(''name'', ''Alice'')])
             (fresh\<lparr>users := initial_users\<rparr>)))) =
     Responded (View ''users.pug''
        [\<lparr>user_id = 1, user_name = Some ''Antonio'', user_tasks = []\<rparr>,
         \<lparr>user_id = 1, user_name = Some ''Alice'', user_tasks = []\<rparr>])"
  using create_alice_then_list
    [of "request_of POST ''/users'' [(''name'', ''Alice'')]" calm calm fresh
        "request_of GET ''/users'' []"]
  by (simp add: request_of_def calm_def draws_evaluated)

section \<open>The walk down the stack\<close>

lemma use_root_matches:
  "layer_match (Use ''/'' s) req =
     Some (case path_parts (originalUrl req) of None \<Rightarrow> [] | Some ps \<Rightarrow> ps)"
  by simp

lemma layer_match_body: "layer_match l (req\<lparr>body := b\<rparr>) = layer_match l req"
  by (cases l) (simp_all split: option.splits)

lemma pending_reaches_onError:
  "list_all (\<lambda>l. \<not> takes_error (layer_stage l)) ls \<Longrightarrow>
   dispatch env (ls @ [Use ''/'' OnError]) (Some err) req st =
     ([OnError], console_error [Obj err] st,
      Response (Send 500 (''Something went wrong: '' @ message err)))"
proof (induction ls)
  case Nil
  show ?case
    by (simp add: invoke_def onError_def res_status_send_def)
next
  case (Cons l ls)
  then show ?case
    by (simp split: option.splits del: layer_match.simps)
qed

lemma app_split:
  "app =
     [Use ''/'' ExpressStatic, Use ''/'' ExpressJson, Use ''/'' ExpressUrlencoded,
      Use ''/'' LogRequestInfo, Use ''/'' LogRequestTime, Get ''/'' GetRoot,
      Use ''/users'' UsersRouter] @ [Use ''/'' OnError]"
  by (simp add: app_layers)

lemma pending_in_app:
  assumes "k \<le> 7"
  shows "dispatch env (drop k app) (Some err) req st =
     ([OnError], console_error [Obj err] st,
      Response (Send 500 (''Something went wrong: '' @ message err)))"
proof -
  let ?front =
    "[Use ''/'' ExpressStatic, Use ''/'' ExpressJson, Use ''/'' ExpressUrlencoded,
      Use ''/'' LogRequestInfo, Use ''/'' LogRequestTime, Get ''/'' GetRoot,
      Use ''/users'' UsersRouter]"
  have "drop k app = drop k ?front @ [Use ''/'' OnError]"
    using assms by (subst app_split, subst drop_append) simp
  moreover have "list_all (\<lambda>l. \<not> takes_error (layer_stage l)) (drop k ?front)"
    by (auto simp: list_all_iff dest!: in_set_dropD)
  ultimately show ?thesis
    by (simp only: pending_reaches_onError)
qed

text \<open>
  C3. \<^verbatim>\<open>onError\<close> answers every error with status 500 and the body
  \<^verbatim>\<open>Something went wrong: \<close> followed by the message of that error, after logging it. And
  it is reached by both ways of failing: when any of the seven layers before it matches
  the request and its function throws or hands an error to \<^verbatim>\<open>next\<close>, the walk from that
  layer calls \<^verbatim>\<open>onError\<close> next and ends with that response.
\<close>

theorem error_stage_response:
  assumes "k < 7"
    and "layer_match (app ! k) req = Some rest"
    and "call env (layer_stage (app ! k)) rest req st = (req', st', out)"
    and "out = NextErr err \<or> out = Thrown err"
  shows "onError err req' st' =
           (console_error [Obj err] st',
            Responded (Send 500 (''Something went wrong: '' @ message err)))
       \<and> dispatch env (drop k app) None req st =
           ([layer_stage (app ! k), OnError], console_error [Obj err] st',
            Response (Send 500 (''Something went wrong: '' @ message err)))"
proof -
  have len: "length app = 8" by (simp add: app_layers)
  have step: "drop k app = app ! k # drop (Suc k) app"
    using assms(1) len by (simp add: Cons_nth_drop_Suc)
  have normal: "\<not> takes_error (layer_stage (app ! k))"
  proof -
    have "list_all (\<lambda>l. \<not> takes_error (layer_stage l)) (take 7 app)"
      by (simp add: app_layers)
    then show ?thesis using assms(1) len
      by (simp add: list_all_length)
  qed
  have rest: "dispatch env (drop (Suc k) app) (Some err) req' st' =
     ([OnError], console_error [Obj err] st',
      Response (Send 500 (''Something went wrong: '' @ message err)))"
    using assms(1) by (intro pending_in_app) simp
  show ?thesis
    using assms(2,3,4) normal rest
    by (auto simp: step invoke_def onError_def res_status_send_def)
qed

text \<open>
  Two runs: \<^verbatim>\<open>express.static\<close> throws on a request, and the view engine fails under
  \<^verbatim>\<open>GET /users\<close>, which \<^verbatim>\<open>res.render\<close> hands to \<^verbatim>\<open>next\<close>.
\<close>

theorem error_stage_response_witness:
  "dispatch (calm\<lparr>static_assets := (\<lambda>r. Thrown (Error ''EACCES''))\<rparr>) (drop 0 app) None
      (request_of GET ''/logo.png'' []) fresh =
     ([ExpressStatic, OnError], console_error [Obj (Error ''EACCES'')] fresh,
      Response (Send 500 ''Something went wrong: EACCES''))
   \<and> dispatch (calm\<lparr>view_error := (\<lambda>v l. Some (Error ''no view''))\<rparr>) (drop 6 app) None
      (request_of GET ''/users'' []) fresh =
     ([UsersRouter, OnError], console_error [Obj (Error ''no view'')] fresh,
      Response (Send 500 ''Something went wrong: no view''))"
  using
    error_stage_response [of 0 "request_of GET ''/logo.png'' []" "[''logo.png'']"
      "calm\<lparr>static_assets := (\<lambda>r. Thrown (Error ''EACCES''))\<rparr>" fresh
      "request_of GET ''/logo.png'' []" fresh "Thrown (Error ''EACCES'')" "Error ''EACCES''"]
    error_stage_response [of 6 "request_of GET ''/users'' []" "[]"
      "calm\<lparr>view_error := (\<lambda>v l. Some (Error ''no view''))\<rparr>" fresh
      "request_of GET ''/users'' []" fresh "NextErr (Error ''no view'')" "Error ''no view''"]
  by (simp add: app_layers calm_def request_of_def pathname_def path_parts_def
      strip_trailing_def mount_match_def same_text_def router_routes compile_routes
      method_matches_def get_users_def res_render_def)

section \<open>The order of the stages\<close>

lemma match_root_only: "match_path [] xs \<noteq> None \<Longrightarrow> xs = []"
  by (cases xs) simp_all

lemma strip_trailing_empty: "strip_trailing ps = [] \<Longrightarrow> ps = [] \<or> ps = [[]]"
  by (cases ps rule: rev_cases) (auto simp: strip_trailing_def split: if_splits)

lemma root_not_users:
  assumes "layer_match (Get ''/'' GetRoot) req = Some r"
  shows "layer_match (Use ''/users'' UsersRouter) req = None"
proof -
  from assms obtain ps where ps: "path_parts (originalUrl req) = Some ps"
    and m: "match_path [] (strip_trailing ps) \<noteq> None"
    by (auto simp: compile_root split: option.splits if_splits)
  from m have "strip_trailing ps = []" by (rule match_root_only)
  then have "ps = [] \<or> ps = [[]]" by (rule strip_trailing_empty)
  then have "mount_match [''users''] ps = None"
    by (auto simp: mount_match_def same_text_def)
  moreover have "strip_trailing (case path_parts ''/users'' of None \<Rightarrow> [] | Some ms \<Rightarrow> ms) = [''users'']"
    by (simp add: path_parts_def pathname_def strip_trailing_def)
  ultimately show ?thesis using ps by simp
qed

lemma fst_visit: "fst (visit s r) = s # fst r"
  by (cases r) simp

lemma fst_spec_error: "fst (spec_error e req st) = [OnError]"
  by (simp add: spec_error_def split: prod.splits outcome.splits)

lemma skip_pending:
  "list_all (\<lambda>l. \<not> takes_error (layer_stage l)) front \<Longrightarrow>
   dispatch env (front @ ls) (Some e) req st = dispatch env ls (Some e) req st"
  by (induction front) (simp_all split: option.splits del: layer_match.simps)

lemma call_GetRoot: "call env GetRoot rest req st = (req, st, Responded (Redirect 302 ''users''))"
  by (simp add: get_root_def res_redirect_def)

lemma pending_is_spec_error:
  "dispatch env [Get ''/'' GetRoot, Use ''/users'' UsersRouter, Use ''/'' OnError] (Some e) req st
     = spec_error e req st"
  using pending_in_app [of 5 env e req st]
  by (simp add: app_layers spec_error_def onError_def res_status_send_def)

lemma tail_trace:
  "filter (\<lambda>s. s \<noteq> GetRoot)
     (fst (dispatch env [Get ''/'' GetRoot, Use ''/users'' UsersRouter, Use ''/'' OnError]
             None req st))
   = fst (spec_stages env [(''/users'', UsersRouter)] req st)"
proof (cases "layer_match (Get ''/'' GetRoot) req")
  case (Some r)
  then show ?thesis
    by (simp add: root_not_users [OF Some] invoke_def call_GetRoot
        del: layer_match.simps call.simps)
next
  case None
  show ?thesis
  proof (cases "layer_match (Use ''/users'' UsersRouter) req")
    case None
    with \<open>layer_match (Get ''/'' GetRoot) req = None\<close> show ?thesis
      by (simp add: use_root_matches del: layer_match.simps call.simps)
  next
    case (Some rest)
    obtain req' st' out where c: "call env UsersRouter rest req st = (req', st', out)"
      by (cases "call env UsersRouter rest req st") auto
    show ?thesis
      using None Some c
      by (cases out)
         (simp_all add: invoke_def fst_visit fst_spec_error use_root_matches onError_def
            res_status_send_def del: layer_match.simps call.simps)
  qed
qed

lemma chain_prefix_trace:
  assumes tail: "\<And>req st. filter (\<lambda>s. s \<noteq> GetRoot) (fst (dispatch env ls None req st))
                   = fst (spec_stages env ss req st)"
    and err: "\<And>e req st. dispatch env ls (Some e) req st = spec_error e req st"
    and front: "list_all (\<lambda>(p, s). \<not> takes_error s \<and> s \<noteq> GetRoot) front"
  shows "filter (\<lambda>s. s \<noteq> GetRoot)
           (fst (dispatch env (map (\<lambda>(p, s). Use p s) front @ ls) None req st))
         = fst (spec_stages env (front @ ss) req st)"
  using front
proof (induction front arbitrary: req st)
  case Nil
  show ?case by (simp add: tail)
next
  case (Cons a front)
  obtain p s where a: "a = (p, s)" by (cases a)
  from Cons.prems a have s: "\<not> takes_error s" "s \<noteq> GetRoot"
    and rest: "list_all (\<lambda>(p, s). \<not> takes_error s \<and> s \<noteq> GetRoot) front"
    by simp_all
  have skip: "list_all (\<lambda>l. \<not> takes_error (layer_stage l)) (map (\<lambda>(p, s). Use p s) front)"
    using rest by (induction front) auto
  note IH = Cons.IH [OF rest]
  show ?case
  proof (cases "layer_match (Use p s) req")
    case None
    then show ?thesis using IH by (simp add: a del: layer_match.simps)
  next
    case (Some r)
    obtain req' st' out where c: "call env s r req st = (req', st', out)"
      by (cases "call env s r req st") auto
    show ?thesis
      using Some c s IH
      by (cases out)
         (simp_all add: a invoke_def fst_visit fst_spec_error skip_pending [OF skip] err
            del: layer_match.simps call.simps)
  qed
qed

lemma walk_traces:
  "filter (\<lambda>s. s \<noteq> GetRoot) (fst (dispatch env app None req st)) = fst (spec_pipeline env req st)"
proof -
  have "app = map (\<lambda>(p, s). Use p s)
               [(''/'', ExpressStatic), (''/'', ExpressJson), (''/'', ExpressUrlencoded),
                (''/'', LogRequestInfo), (''/'', LogRequestTime)]
             @ [Get ''/'' GetRoot, Use ''/users'' UsersRouter, Use ''/'' OnError]"
    by (simp add: app_layers)
  moreover have "filter (\<lambda>s. s \<noteq> GetRoot)
      (fst (dispatch env
        (map (\<lambda>(p, s). Use p s)
               [(''/'', ExpressStatic), (''/'', ExpressJson), (''/'', ExpressUrlencoded),
                (''/'', LogRequestInfo), (''/'', LogRequestTime)]
             @ [Get ''/'' GetRoot, Use ''/users'' UsersRouter, Use ''/'' OnError]) None req st))
     = fst (spec_stages env
        ([(''/'', ExpressStatic), (''/'', ExpressJson), (''/'', ExpressUrlencoded),
                (''/'', LogRequestInfo), (''/'', LogRequestTime)] @ [(''/users'', UsersRouter)]) req st)"
    by (rule chain_prefix_trace [OF tail_trace pending_is_spec_error]) simp
  ultimately show ?thesis
    by (simp only: spec_pipeline_def append.simps)
qed

lemma walk_first_five:
  assumes "static_assets env req = Next" and "json_body env req = Inr b"
    and "urlencoded_body env (req\<lparr>body := b\<rparr>) = Inr b'"
  shows "take 5 (fst (dispatch env app None req st)) =
     [ExpressStatic, ExpressJson, ExpressUrlencoded, LogRequestInfo, LogRequestTime]"
proof -
  have "app = [Use ''/'' ExpressStatic, Use ''/'' ExpressJson, Use ''/'' ExpressUrlencoded,
      Use ''/'' LogRequestInfo, Use ''/'' LogRequestTime] @ drop 5 app"
    by (simp add: app_layers)
  then obtain ls where ls: "app = [Use ''/'' ExpressStatic, Use ''/'' ExpressJson,
      Use ''/'' ExpressUrlencoded, Use ''/'' LogRequestInfo, Use ''/'' LogRequestTime] @ ls"
    by blast
  show ?thesis
    unfolding ls using assms
    by (simp add: invoke_def fst_visit logRequestInfo_def logRequestTime_def)
qed

text \<open>
  C9. Leaving aside the route \<^verbatim>\<open>GET /\<close>, which \<^verbatim>\<open>index.js\<close> registers between the timestamp
  logging and the router, the stack of the application holds exactly the stages of the
  claim, in its order: static assets, JSON decoding, URL-encoded decoding, request-info
  logging, timestamp logging, the user router, the error handler. For every request
  the stages of that list that the application calls are the stages the chain of the
  specification calls, in the same order. And whenever the three library stages pass
  the request on, the first five stages called are the first five of the list.
\<close>

theorem pipeline_order:
  "filter (\<lambda>s. s \<noteq> GetRoot) (map layer_stage app) =
     [ExpressStatic, ExpressJson, ExpressUrlencoded, LogRequestInfo, LogRequestTime,
      UsersRouter, OnError]
   \<and> filter (\<lambda>s. s \<noteq> GetRoot) (fst (dispatch env app None req st))
       = fst (spec_pipeline env req st)
   \<and> (static_assets env req = Next \<and> json_body env req = Inr b
        \<and> urlencoded_body env (req\<lparr>body := b\<rparr>) = Inr b' \<longrightarrow>
      take 5 (fst (dispatch env app None req st)) =
        [ExpressStatic, ExpressJson, ExpressUrlencoded, LogRequestInfo, LogRequestTime])"
proof -
  have "filter (\<lambda>s. s \<noteq> GetRoot) (map layer_stage app) =
     [ExpressStatic, ExpressJson, ExpressUrlencoded, LogRequestInfo, LogRequestTime,
      UsersRouter, OnError]"
    by (simp add: app_layers)
  then show ?thesis
    using walk_traces [of env req st] walk_first_five [of env req b b' st] by blast
qed

text \<open>
  A request on which all seven stages are called, in the order of the claim:
  \<^verbatim>\<open>GET /users\<close> with a failing view.
\<close>

theorem pipeline_order_witness:
  "filter (\<lambda>s. s \<noteq> GetRoot)
     (fst (dispatch (calm\<lparr>view_error := (\<lambda>v l. Some (Error ''no view''))\<rparr>) app None
        (request_of GET ''/users'' []) fresh))
     = [ExpressStatic, ExpressJson, ExpressUrlencoded, LogRequestInfo, LogRequestTime,
        UsersRouter, OnError]
   \<and> take 5
     (fst (dispatch (calm\<lparr>view_error := (\<lambda>v l. Some (Error ''no view''))\<rparr>) app None
        (request_of GET ''/users'' []) fresh))
     = [ExpressStatic, ExpressJson, ExpressUrlencoded, LogRequestInfo, LogRequestTime]"
  using pipeline_order
    [of "calm\<lparr>view_error := (\<lambda>v l. Some (Error ''no view''))\<rparr>"
        "request_of GET ''/users'' []" fresh "map_of []" "map_of []"]
  by (simp add: run_simps spec_pipeline_def spec_error_def get_users_def res_render_def)

text \<open>
  The route \<^verbatim>\<open>GET /\<close> answers after the timestamp logging; the router is not called.
\<close>

lemma get_root_run:
  "dispatch calm app None (request_of GET ''/'' []) fresh =
     ([ExpressStatic, ExpressJson, ExpressUrlencoded, LogRequestInfo, LogRequestTime, GetRoot],
      fresh\<lparr>console := [ConsoleLog [Text ''GET /''], ConsoleLog [Text ''Time: 10:15:00 AM'']]\<rparr>,
      Response (Redirect 302 ''users''))"
  by (simp add: run_simps)

section \<open>The schema at startup\<close>

lemmas dbInit_simps =
  dbInit_def Let_def sync_tables_def sequelize_instance_def sequelize_define_def
  new_Sequelize_def create_table_if_absent_def table_of_def console_log_def console_error_def

text \<open>
  C4, as the code has it. When \<^verbatim>\<open>sync\<close> is not rejected, \<^verbatim>\<open>dbInit\<close> creates the table of
  the one model the module defines, \<^verbatim>\<open>user\<close> (a \<^verbatim>\<open>name\<close> column, no foreign key), if the
  database has none, and changes no other table; running it again changes no table.
\<close>

theorem ensure_schema:
  assumes "sync_error env = None" and "sync_error env' = None"
  shows "tables (fst (dbInit env st)) =
           (if ''user'' \<in> set (map fst (tables st)) then tables st
            else tables st @ [(''user'', \<lparr>columns = [(''name'', STRING)], foreign_keys = []\<rparr>)])
       \<and> tables (fst (dbInit env' (fst (dbInit env st)))) = tables (fst (dbInit env st))"
  using assms
  by (auto simp: dbInit_simps split: option.splits)

theorem ensure_schema_witness:
  "tables (fst (dbInit calm fresh)) =
     [(''user'', \<lparr>columns = [(''name'', STRING)], foreign_keys = []\<rparr>)]
   \<and> tables (fst (dbInit calm (fst (dbInit calm fresh)))) = tables (fst (dbInit calm fresh))"
  using ensure_schema [of calm calm fresh]
  by (simp add: calm_def fresh_def)

text \<open>
  No table for tasks is established: on an empty database, with nothing failing, the
  only table after \<^verbatim>\<open>dbInit\<close> is \<^verbatim>\<open>user\<close>.
\<close>

theorem ensure_schema_counterexample:
  "dbInit calm fresh =
     (fresh\<lparr>console := [ConsoleLog [Text ''Connection has been established successfully.'']],
            tables := [(''user'', \<lparr>columns = [(''name'', STRING)], foreign_keys = []\<rparr>)]\<rparr>,
      Fulfilled)
   \<and> map_of (tables (fst (dbInit calm fresh))) ''task'' = None"
  by (simp add: dbInit_simps calm_def fresh_def)

text \<open>
  A rejected \<^verbatim>\<open>authenticate\<close> is caught: it is logged, \<^verbatim>\<open>sync\<close> still runs, and the
  promise of \<^verbatim>\<open>dbInit\<close> is fulfilled.
\<close>

lemma dbInit_authenticate_rejected:
  assumes "authenticate env = Some e" and "sync_error env = None"
  shows "dbInit env st =
           ((console_error [Text ''Unable to dbInit to the database:'', Obj e] st)
              \<lparr>tables := sync_tables sequelize_instance (tables st)\<rparr>,
            Fulfilled)"
  using assms by (simp add: dbInit_def console_error_def)

text \<open>
  C8. A failure of the schema step is not logged and not caught: with \<^verbatim>\<open>authenticate\<close>
  succeeding and \<^verbatim>\<open>sync\<close> rejected, the console holds the success message only, and
  the rejection leaves \<^verbatim>\<open>dbInit\<close> and is unhandled in \<^verbatim>\<open>index.js\<close>.
\<close>

theorem dbInit_sync_rejected:
  "index_dbInit (calm\<lparr>sync_error := Some (Error ''SQLITE_READONLY'')\<rparr>) fresh =
     (fresh\<lparr>console := [ConsoleLog [Text ''Connection has been established successfully.'']]\<rparr>,
      Some (Error ''SQLITE_READONLY''))"
  by (simp add: index_dbInit_def dbInit_def Let_def console_log_def calm_def fresh_def)

end
